theory Spec2Isabelle
  imports Main "HOL-Library.Word" "HOL-Library.Signed_Division"
begin

unbundle bit_operations_syntax

section \<open>Bytes, errors and results\<close>

type_synonym byte = "8 word"

text \<open>
  The error values of the package.  \<open>AoEError\<close> wraps the Go type \<open>Error uint8\<close>
  of the protocol error codes; \<open>ErrUnexpectedEOF\<close> is \<open>io.ErrUnexpectedEOF\<close>;
  \<open>ErrOther\<close> stands for any error value which a collaborator (the backing store or
  the response sender) produces.
\<close>

datatype error =
    ErrUnexpectedEOF
  | AoEError byte
  | ErrInvalidATARequest
  | ErrNotImplemented
  | ErrOther string

abbreviation ErrorUnrecognizedCommandCode :: error where
  "ErrorUnrecognizedCommandCode \<equiv> AoEError 1"

abbreviation ErrorBadArgumentParameter :: error where
  "ErrorBadArgumentParameter \<equiv> AoEError 2"

abbreviation ErrorUnsupportedVersion :: error where
  "ErrorUnsupportedVersion \<equiv> AoEError 5"

text \<open>
  The outcome of a Go function returning \<open>(T, error)\<close>: a value, a returned error, or a
  run-time panic (an index or a slice bound out of range).
\<close>

datatype 'a result = Ok 'a | Err error | Panic

section \<open>Byte slices\<close>

text \<open>\<open>make([]byte, n)\<close>: \<open>n\<close> zero bytes, with capacity \<open>n\<close>.\<close>

definition make_bytes :: "nat \<Rightarrow> byte list" where
  "make_bytes n = replicate n 0"

text \<open>\<open>b[i] = v\<close>: panics when \<open>i\<close> is not below \<open>len(b)\<close>.\<close>

definition set_index :: "byte list \<Rightarrow> nat \<Rightarrow> byte \<Rightarrow> byte list result" where
  "set_index b i v = (if i < length b then Ok (b[i := v]) else Panic)"

text \<open>
  \<open>copy(b[lo:hi], src)\<close> on a slice whose capacity is its length: the slice expression
  panics unless \<open>lo \<le> hi \<le> cap(b)\<close>; \<open>copy\<close> then moves
  \<open>min(hi - lo, len(src))\<close> bytes.
\<close>

definition copy_slice :: "byte list \<Rightarrow> nat \<Rightarrow> nat \<Rightarrow> byte list \<Rightarrow> byte list result" where
  "copy_slice b lo hi src =
     (if lo \<le> hi \<and> hi \<le> length b
      then (let n = min (hi - lo) (length src)
            in Ok (take lo b @ take n src @ drop (lo + n) b))
      else Panic)"

text \<open>The functions of \<open>encoding/binary\<close> which the package calls.\<close>

definition BigEndian_Uint16 :: "byte \<Rightarrow> byte \<Rightarrow> 16 word" where
  "BigEndian_Uint16 b0 b1 = ucast b1 OR push_bit 8 (ucast b0)"

definition BigEndian_PutUint16 :: "16 word \<Rightarrow> byte list" where
  "BigEndian_PutUint16 v = [ucast (drop_bit 8 v), ucast v]"

definition LittleEndian_Uint64 ::
  "byte \<Rightarrow> byte \<Rightarrow> byte \<Rightarrow> byte \<Rightarrow> byte \<Rightarrow> byte \<Rightarrow> byte \<Rightarrow> byte \<Rightarrow> 64 word" where
  "LittleEndian_Uint64 b0 b1 b2 b3 b4 b5 b6 b7 =
     ucast b0 OR push_bit 8 (ucast b1) OR push_bit 16 (ucast b2) OR push_bit 24 (ucast b3)
     OR push_bit 32 (ucast b4) OR push_bit 40 (ucast b5) OR push_bit 48 (ucast b6)
     OR push_bit 56 (ucast b7)"

section \<open>ATAArg\<close>

text \<open>The Go arrays \<open>[6]uint8\<close> and \<open>[4]byte\<close>.\<close>

datatype uint8x6 = Array6 byte byte byte byte byte byte

datatype uint8x4 = Array4 byte byte byte byte

record ATAArg =
  FlagLBA48Extended :: bool
  FlagATADeviceHeadRegister :: bool
  FlagAsynchronous :: bool
  FlagWrite :: bool
  ErrFeature :: byte
  SectorCount :: byte
  CmdStatus :: byte
  LBA :: uint8x6
  Data :: "byte list"

definition ataArgLen :: nat where
  "ataArgLen = 1 + 1 + 1 + 1 + 6 + 2"

text \<open>The flag byte which \<open>ATAArg.MarshalBinary\<close> builds with four \<open>|=\<close>.\<close>

definition ATAArg_flags :: "ATAArg \<Rightarrow> byte" where
  "ATAArg_flags a =
     (let flags = 0;
          flags = (if FlagLBA48Extended a then flags OR push_bit 6 1 else flags);
          flags = (if FlagATADeviceHeadRegister a then flags OR push_bit 4 1 else flags);
          flags = (if FlagAsynchronous a then flags OR push_bit 1 1 else flags);
          flags = (if FlagWrite a then flags OR 1 else flags)
      in flags)"

text \<open>
  \<open>ATAArg.MarshalBinary\<close>.  The buffer has \<open>ataArgLen + len(a.Data)\<close> bytes, the
  stores go to the constant indices 0 to 9, bytes 10 and 11 stay zero and \<open>a.Data\<close>
  is copied behind them.
\<close>

definition ATAArg_MarshalBinary :: "ATAArg \<Rightarrow> byte list result" where
  "ATAArg_MarshalBinary a =
     (case LBA a of Array6 l0 l1 l2 l3 l4 l5 \<Rightarrow>
        Ok ([ATAArg_flags a, ErrFeature a, ATAArg.SectorCount a, CmdStatus a,
             l0, l1, l2, l3, l4, l5, 0, 0] @ Data a))"

definition ATAArg_UnmarshalBinary :: "byte list \<Rightarrow> ATAArg result" where
  "ATAArg_UnmarshalBinary b =
     (if length b < ataArgLen then Err ErrUnexpectedEOF
      else if b ! 10 \<noteq> 0 \<or> b ! 11 \<noteq> 0 then Err ErrorBadArgumentParameter
      else Ok \<lparr> FlagLBA48Extended = (b ! 0 AND 0x40) \<noteq> 0,
                FlagATADeviceHeadRegister = (b ! 0 AND 0x10) \<noteq> 0,
                FlagAsynchronous = (b ! 0 AND 0x02) \<noteq> 0,
                FlagWrite = (b ! 0 AND 0x01) \<noteq> 0,
                ErrFeature = b ! 1,
                ATAArg.SectorCount = b ! 2,
                CmdStatus = b ! 3,
                LBA = Array6 (b ! 4) (b ! 5) (b ! 6) (b ! 7) (b ! 8) (b ! 9),
                Data = drop 12 b \<rparr>)"

section \<open>ConfigArg\<close>

record ConfigArg =
  BufferCount :: "16 word"
  FirmwareVersion :: "16 word"
  SectorCount :: byte
  Version :: byte
  Command :: byte
  StringLength :: "16 word"
  String :: "byte list"

definition configArgLen :: nat where
  "configArgLen = 2 + 2 + 1 + 1 + 2"

text \<open>
  \<open>ConfigArg.MarshalBinary\<close>.  Byte 5 is \<open>c.Version << 4 | c.Command\<close> in
  \<open>uint8\<close>; the buffer has \<open>configArgLen + c.StringLength\<close> bytes and, past the
  second check, \<open>c.String\<close> fills the part behind the prefix.
\<close>

definition ConfigArg_MarshalBinary :: "ConfigArg \<Rightarrow> byte list result" where
  "ConfigArg_MarshalBinary c =
     (if ConfigArg.Command c > 0xf then Err ErrorBadArgumentParameter
      else if unat (StringLength c) \<noteq> length (String c) then Err ErrorBadArgumentParameter
      else if StringLength c > 1024 then Err ErrorBadArgumentParameter
      else (let vc = 0;
                vc = vc OR push_bit 4 (ConfigArg.Version c);
                vc = vc OR ConfigArg.Command c
            in Ok (BigEndian_PutUint16 (BufferCount c) @ BigEndian_PutUint16 (FirmwareVersion c)
                   @ [ConfigArg.SectorCount c, vc]
                   @ BigEndian_PutUint16 (StringLength c) @ String c)))"

definition ConfigArg_UnmarshalBinary :: "byte list \<Rightarrow> ConfigArg result" where
  "ConfigArg_UnmarshalBinary b =
     (if length b < configArgLen then Err ErrUnexpectedEOF
      else (let sl = BigEndian_Uint16 (b ! 6) (b ! 7)
            in if length (drop 8 b) < unat sl then Err ErrUnexpectedEOF
               else if sl > 1024 then Err ErrorBadArgumentParameter
               else Ok \<lparr> BufferCount = BigEndian_Uint16 (b ! 0) (b ! 1),
                         FirmwareVersion = BigEndian_Uint16 (b ! 2) (b ! 3),
                         ConfigArg.SectorCount = b ! 4,
                         ConfigArg.Version = drop_bit 4 (b ! 5),
                         ConfigArg.Command = b ! 5 AND 0x0f,
                         StringLength = sl,
                         String = take (unat sl) (drop 8 b) \<rparr>))"

section \<open>MACMaskArg and its directives\<close>

text \<open>
  A hardware address (\<open>net.HardwareAddr\<close>) is a byte slice of any length.  The
  elements of \<open>Directives\<close> are the directives themselves: a nil pointer in the Go
  slice is not represented.
\<close>

record Directive =
  Command :: byte
  MAC :: "byte list"

definition macMaskArgLen :: nat where
  "macMaskArgLen = 1 + 1 + 1 + 1"

definition directiveLen :: nat where
  "directiveLen = 1 + 1 + 6"

text \<open>
  \<open>Directive.MarshalBinary\<close>: eight bytes, the first one reserved, the command, and
  the six bytes of the address.
\<close>

definition Directive_MarshalBinary :: "Directive \<Rightarrow> byte list result" where
  "Directive_MarshalBinary d =
     (if length (MAC d) \<noteq> 6 then Err ErrorBadArgumentParameter
      else Ok ([0, Directive.Command d] @ MAC d))"

definition Directive_UnmarshalBinary :: "byte list \<Rightarrow> Directive result" where
  "Directive_UnmarshalBinary b =
     (if length b \<noteq> directiveLen then Err ErrUnexpectedEOF
      else if b ! 0 \<noteq> 0 then Err ErrorBadArgumentParameter
      else Ok \<lparr> Directive.Command = b ! 1, MAC = take 6 (drop 2 b) \<rparr>)"

record MACMaskArg =
  Command :: byte
  Error :: byte
  DirCount :: byte
  Directives :: "Directive list"

text \<open>
  The loop of \<open>MACMaskArg.MarshalBinary\<close>: each directive is marshalled and copied
  to \<open>b[n:n+directiveLen]\<close>, and \<open>n\<close> advances by \<open>directiveLen\<close>.
\<close>

fun MACMaskArg_marshal_loop :: "byte list \<Rightarrow> nat \<Rightarrow> Directive list \<Rightarrow> byte list result" where
  "MACMaskArg_marshal_loop b n [] = Ok b"
| "MACMaskArg_marshal_loop b n (d # ds) =
     (case Directive_MarshalBinary d of
        Err e \<Rightarrow> Err e
      | Panic \<Rightarrow> Panic
      | Ok db \<Rightarrow>
          (case copy_slice b n (n + directiveLen) db of
             Ok b' \<Rightarrow> MACMaskArg_marshal_loop b' (n + directiveLen) ds
           | Err e \<Rightarrow> Err e
           | Panic \<Rightarrow> Panic))"

text \<open>
  \<open>MACMaskArg.MarshalBinary\<close>.  The length \<open>macMaskArgLen+(directiveLen*m.DirCount)\<close>
  is computed in \<open>uint8\<close>, the type of \<open>m.DirCount\<close>, and wraps modulo 256.
\<close>

definition MACMaskArg_MarshalBinary :: "MACMaskArg \<Rightarrow> byte list result" where
  "MACMaskArg_MarshalBinary m =
     (if unat (DirCount m) \<noteq> length (Directives m) then Err ErrorBadArgumentParameter
      else (let b = make_bytes (unat (4 + 8 * DirCount m))
            in case set_index b 1 (MACMaskArg.Command m) of
                 Err e \<Rightarrow> Err e | Panic \<Rightarrow> Panic
               | Ok b \<Rightarrow>
             (case set_index b 2 (MACMaskArg.Error m) of
                 Err e \<Rightarrow> Err e | Panic \<Rightarrow> Panic
               | Ok b \<Rightarrow>
             (case set_index b 3 (DirCount m) of
                 Err e \<Rightarrow> Err e | Panic \<Rightarrow> Panic
               | Ok b \<Rightarrow> MACMaskArg_marshal_loop b 4 (Directives m)))))"

text \<open>
  The loop of \<open>MACMaskArg.UnmarshalBinary\<close> over the indices \<open>i\<close>: the directive
  \<open>i\<close> is read from \<open>b[4+i*directiveLen : 4+i*directiveLen+directiveLen]\<close>, and
  the first error ends the loop.
\<close>

fun MACMaskArg_unmarshal_loop :: "byte list \<Rightarrow> nat list \<Rightarrow> Directive list result" where
  "MACMaskArg_unmarshal_loop b [] = Ok []"
| "MACMaskArg_unmarshal_loop b (i # is) =
     (case Directive_UnmarshalBinary (take directiveLen (drop (4 + i * directiveLen) b)) of
        Err e \<Rightarrow> Err e
      | Panic \<Rightarrow> Panic
      | Ok d \<Rightarrow>
          (case MACMaskArg_unmarshal_loop b is of
             Ok ds \<Rightarrow> Ok (d # ds)
           | Err e \<Rightarrow> Err e
           | Panic \<Rightarrow> Panic))"

definition MACMaskArg_UnmarshalBinary :: "byte list \<Rightarrow> MACMaskArg result" where
  "MACMaskArg_UnmarshalBinary b =
     (if length b < macMaskArgLen then Err ErrUnexpectedEOF
      else if b ! 0 \<noteq> 0 then Err ErrorBadArgumentParameter
      else if length (drop 4 b) \<noteq> directiveLen * unat (b ! 3) then Err ErrUnexpectedEOF
      else (case MACMaskArg_unmarshal_loop b [0 ..< unat (b ! 3)] of
              Err e \<Rightarrow> Err e
            | Panic \<Rightarrow> Panic
            | Ok ds \<Rightarrow> Ok \<lparr> MACMaskArg.Command = b ! 1, MACMaskArg.Error = b ! 2,
                            DirCount = b ! 3, Directives = ds \<rparr>))"

section \<open>ReserveReleaseArg\<close>

record ReserveReleaseArg =
  Command :: byte
  NMACs :: byte
  MACs :: "byte list list"

definition reserveReleaseArgLen :: nat where
  "reserveReleaseArgLen = 2"

text \<open>
  The loop of \<open>ReserveReleaseArg.MarshalBinary\<close>: an address which is not six bytes
  long ends it with an error, the others are copied to \<open>b[n:n+6]\<close>.
\<close>

fun ReserveReleaseArg_marshal_loop :: "byte list \<Rightarrow> nat \<Rightarrow> byte list list \<Rightarrow> byte list result" where
  "ReserveReleaseArg_marshal_loop b n [] = Ok b"
| "ReserveReleaseArg_marshal_loop b n (m # ms) =
     (if length m \<noteq> 6 then Err ErrorBadArgumentParameter
      else (case copy_slice b n (n + 6) m of
              Ok b' \<Rightarrow> ReserveReleaseArg_marshal_loop b' (n + 6) ms
            | Err e \<Rightarrow> Err e
            | Panic \<Rightarrow> Panic))"

text \<open>
  \<open>ReserveReleaseArg.MarshalBinary\<close>.  The length
  \<open>reserveReleaseArgLen+(r.NMACs*6)\<close> is computed in \<open>uint8\<close>, the type of
  \<open>r.NMACs\<close>, and wraps modulo 256.
\<close>

definition ReserveReleaseArg_MarshalBinary :: "ReserveReleaseArg \<Rightarrow> byte list result" where
  "ReserveReleaseArg_MarshalBinary r =
     (if unat (NMACs r) \<noteq> length (MACs r) then Err ErrorBadArgumentParameter
      else (let b = make_bytes (unat (2 + NMACs r * 6))
            in case set_index b 0 (ReserveReleaseArg.Command r) of
                 Err e \<Rightarrow> Err e | Panic \<Rightarrow> Panic
               | Ok b \<Rightarrow>
             (case set_index b 1 (NMACs r) of
                 Err e \<Rightarrow> Err e | Panic \<Rightarrow> Panic
               | Ok b \<Rightarrow> ReserveReleaseArg_marshal_loop b 2 (MACs r))))"

definition ReserveReleaseArg_UnmarshalBinary :: "byte list \<Rightarrow> ReserveReleaseArg result" where
  "ReserveReleaseArg_UnmarshalBinary b =
     (if length b < reserveReleaseArgLen then Err ErrUnexpectedEOF
      else if length (drop 2 b) \<noteq> 6 * unat (b ! 1) then Err ErrUnexpectedEOF
      else Ok \<lparr> ReserveReleaseArg.Command = b ! 0, NMACs = b ! 1,
                MACs = map (\<lambda>i. take 6 (drop (2 + i * 6) b)) [0 ..< unat (b ! 1)] \<rparr>)"

section \<open>Header\<close>

text \<open>The implementations of the interface \<open>Arg\<close> in the package.\<close>

datatype Arg =
    ATA ATAArg
  | Config ConfigArg
  | MACMask MACMaskArg
  | ReserveRelease ReserveReleaseArg

fun Arg_MarshalBinary :: "Arg \<Rightarrow> byte list result" where
  "Arg_MarshalBinary (ATA a) = ATAArg_MarshalBinary a"
| "Arg_MarshalBinary (Config c) = ConfigArg_MarshalBinary c"
| "Arg_MarshalBinary (MACMask m) = MACMaskArg_MarshalBinary m"
| "Arg_MarshalBinary (ReserveRelease r) = ReserveReleaseArg_MarshalBinary r"

text \<open>\<open>Arg\<close> is \<open>None\<close> for the nil interface value.\<close>

record Header =
  Version :: byte
  FlagResponse :: bool
  FlagError :: bool
  Error :: byte
  Major :: "16 word"
  Minor :: byte
  Command :: byte
  Tag :: uint8x4
  Arg :: "Arg option"

definition Version_const :: byte where
  "Version_const = 1"

definition headerLen :: nat where
  "headerLen = 1 + 1 + 2 + 1 + 1 + 4"

definition CommandIssueATACommand :: byte where
  "CommandIssueATACommand = 0"

definition CommandQueryConfigInformation :: byte where
  "CommandQueryConfigInformation = 1"

definition CommandMACMaskList :: byte where
  "CommandMACMaskList = 2"

definition CommandReserveRelease :: byte where
  "CommandReserveRelease = 3"

definition Header_MarshalBinary :: "Header \<Rightarrow> byte list result" where
  "Header_MarshalBinary h =
     (if Header.Version h \<noteq> Version_const then Err ErrorUnsupportedVersion
      else (case Arg h of
              None \<Rightarrow> Err ErrorBadArgumentParameter
            | Some a \<Rightarrow>
                (case Arg_MarshalBinary a of
                   Err e \<Rightarrow> Err e
                 | Panic \<Rightarrow> Panic
                 | Ok ab \<Rightarrow>
                     (let vf = 0;
                          vf = vf OR push_bit 4 (Header.Version h);
                          vf = (if FlagResponse h then vf OR push_bit 3 1 else vf);
                          vf = (if FlagError h then vf OR push_bit 2 1 else vf)
                      in case Tag h of Array4 t0 t1 t2 t3 \<Rightarrow>
                           Ok ([vf, Header.Error h] @ BigEndian_PutUint16 (Major h)
                               @ [Minor h, Header.Command h, t0, t1, t2, t3] @ ab)))))"

text \<open>
  \<open>Header.UnmarshalBinary\<close>.  The Go method fills the receiver as it goes; the model
  gives the header of the successful return.
\<close>

definition Header_UnmarshalBinary :: "byte list \<Rightarrow> Header result" where
  "Header_UnmarshalBinary b =
     (if length b < headerLen then Err ErrUnexpectedEOF
      else if drop_bit 4 (b ! 0) \<noteq> Version_const then Err ErrorUnsupportedVersion
      else (let mk = (\<lambda>a. \<lparr> Header.Version = drop_bit 4 (b ! 0),
                             FlagResponse = (b ! 0 AND 0x08) \<noteq> 0,
                             FlagError = (b ! 0 AND 0x04) \<noteq> 0,
                             Header.Error = b ! 1,
                             Major = BigEndian_Uint16 (b ! 2) (b ! 3),
                             Minor = b ! 4,
                             Header.Command = b ! 5,
                             Tag = Array4 (b ! 6) (b ! 7) (b ! 8) (b ! 9),
                             Arg = Some a \<rparr>)
            in if b ! 5 = CommandIssueATACommand then
                 (case ATAArg_UnmarshalBinary (drop 10 b) of
                    Ok a \<Rightarrow> Ok (mk (ATA a)) | Err e \<Rightarrow> Err e | Panic \<Rightarrow> Panic)
               else if b ! 5 = CommandQueryConfigInformation then
                 (case ConfigArg_UnmarshalBinary (drop 10 b) of
                    Ok a \<Rightarrow> Ok (mk (Config a)) | Err e \<Rightarrow> Err e | Panic \<Rightarrow> Panic)
               else if b ! 5 = CommandMACMaskList then
                 (case MACMaskArg_UnmarshalBinary (drop 10 b) of
                    Ok a \<Rightarrow> Ok (mk (MACMask a)) | Err e \<Rightarrow> Err e | Panic \<Rightarrow> Panic)
               else if b ! 5 = CommandReserveRelease then
                 (case ReserveReleaseArg_UnmarshalBinary (drop 10 b) of
                    Ok a \<Rightarrow> Ok (mk (ReserveRelease a)) | Err e \<Rightarrow> Err e | Panic \<Rightarrow> Panic)
               else Err ErrorUnrecognizedCommandCode))"

text \<open>The function \<open>Fuzz\<close>: 0 when the input is rejected, 1 when it decodes and
  encodes again, and a panic when the decoded header does not encode.\<close>

definition Fuzz :: "byte list \<Rightarrow> int result" where
  "Fuzz data =
     (case Header_UnmarshalBinary data of
        Err e \<Rightarrow> Ok 0
      | Panic \<Rightarrow> Panic
      | Ok h \<Rightarrow>
          (case Header_MarshalBinary h of
             Err e \<Rightarrow> Panic
           | Panic \<Rightarrow> Panic
           | Ok b \<Rightarrow> Ok 1))"

section \<open>The ATA request handler\<close>

definition ATAErrAbort :: byte where
  "ATAErrAbort = 0x04"

definition ATACmdStatusErrStatus :: byte where
  "ATACmdStatusErrStatus = 0x01"

definition ATACmdStatusReadyStatus :: byte where
  "ATACmdStatusReadyStatus = 0x40"

definition ATACmdStatusCheckPower :: byte where
  "ATACmdStatusCheckPower = 0xe5"

definition ATACmdStatusFlush :: byte where
  "ATACmdStatusFlush = 0xe7"

definition ATACmdStatusIdentify :: byte where
  "ATACmdStatusIdentify = 0xec"

definition ATACmdStatusRead28Bit :: byte where
  "ATACmdStatusRead28Bit = 0x20"

definition ATACmdStatusRead48Bit :: byte where
  "ATACmdStatusRead48Bit = 0x24"

definition ATACmdStatusWrite28Bit :: byte where
  "ATACmdStatusWrite28Bit = 0x30"

definition ATACmdStatusWrite48Bit :: byte where
  "ATACmdStatusWrite48Bit = 0x34"

definition sectorSize :: int where
  "sectorSize = 512"

text \<open>
  \<open>calculateLBA\<close>: the six bytes and two zero bytes are read as a little-endian
  \<open>uint64\<close>, masked, and converted to \<open>int64\<close>.
\<close>

definition calculateLBA :: "uint8x6 \<Rightarrow> bool \<Rightarrow> int" where
  "calculateLBA rlba is48Bit =
     (case rlba of Array6 r0 r1 r2 r3 r4 r5 \<Rightarrow>
        (let lba = LittleEndian_Uint64 r0 r1 r2 r3 r4 r5 0 0;
             lba = (if is48Bit then lba AND 0x0000ffffffffffff else lba AND 0x0fffffff)
         in sint lba))"

text \<open>
  What the handler does to its collaborators, in order: the calls of the backing store
  with their arguments, and the headers passed to \<open>Send\<close>.
\<close>

datatype event =
    SeekCall int
  | ReadCall nat
  | WriteCall "byte list"
  | IdentifyCall
  | SendCall Header

text \<open>
  The backing store \<open>rs\<close>, an \<open>io.ReadSeeker\<close>.  Each method answers from the
  events so far and its argument.  \<open>Seek\<close> gives the error of
  \<open>rs.Seek(offset, os.SEEK_SET)\<close>, whose position the handler ignores; \<open>Read\<close>
  takes the length of the buffer and gives the count, the bytes stored at the front of
  the buffer, and the error.  \<open>Write\<close> is \<open>None\<close> when \<open>rs\<close> is not an
  \<open>io.ReadWriteSeeker\<close>, and \<open>Identify\<close> is \<open>None\<close> when it is not an
  \<open>Identifier\<close>.
\<close>

record ReadSeeker =
  Seek :: "event list \<Rightarrow> int \<Rightarrow> error option"
  Read :: "event list \<Rightarrow> nat \<Rightarrow> int \<times> byte list \<times> error option"
  Write :: "(event list \<Rightarrow> byte list \<Rightarrow> int \<times> error option) option"
  Identify :: "(event list \<Rightarrow> byte list \<times> error option) option"

text \<open>
  The error of \<open>ataIdentify\<close>, \<open>ataRead\<close> and \<open>ataWrite\<close>: the sentinel
  \<open>errATAAbort\<close> or another error.  The sentinel is an unexported variable holding a
  value of \<open>errors.New\<close> and is compared by identity, so that no error of a backing
  store is equal to it.
\<close>

datatype ata_error = errATAAbort | Returned error

text \<open>The zero values \<open>ATAArg{}\<close> and \<open>Header{}\<close>.\<close>

definition ATAArg_zero :: ATAArg where
  "ATAArg_zero = \<lparr> FlagLBA48Extended = False, FlagATADeviceHeadRegister = False,
                   FlagAsynchronous = False, FlagWrite = False, ErrFeature = 0,
                   ATAArg.SectorCount = 0, CmdStatus = 0, LBA = Array6 0 0 0 0 0 0,
                   Data = [] \<rparr>"

definition Header_zero :: Header where
  "Header_zero = \<lparr> Header.Version = 0, FlagResponse = False, FlagError = False,
                   Header.Error = 0, Major = 0, Minor = 0, Header.Command = 0,
                   Tag = Array4 0 0 0 0, Arg = None \<rparr>"

text \<open>The product \<open>calculateLBA(...) * sectorSize\<close> in \<open>int64\<close>.\<close>

definition ata_offset :: "ATAArg \<Rightarrow> int" where
  "ata_offset r = signed_take_bit 63 (calculateLBA (LBA r) (FlagLBA48Extended r) * sectorSize)"

definition ataIdentify ::
  "ATAArg \<Rightarrow> ReadSeeker \<Rightarrow> event list \<Rightarrow> (ata_error + ATAArg) \<times> event list" where
  "ataIdentify r rs tr =
     (if CmdStatus r \<noteq> ATACmdStatusIdentify then (Inl errATAAbort, tr)
      else if ATAArg.SectorCount r \<noteq> 1 then (Inl errATAAbort, tr)
      else (case Identify rs of
              None \<Rightarrow> (Inl (Returned ErrNotImplemented), tr)
            | Some ident \<Rightarrow>
                (case ident tr of
                   (ident_bytes, Some err) \<Rightarrow> (Inl (Returned err), tr @ [IdentifyCall])
                 | (ident_bytes, None) \<Rightarrow>
                     (Inr (ATAArg_zero \<lparr> CmdStatus := ATACmdStatusReadyStatus, Data := ident_bytes \<rparr>),
                      tr @ [IdentifyCall]))))"

definition ataRead ::
  "ATAArg \<Rightarrow> ReadSeeker \<Rightarrow> event list \<Rightarrow> (ata_error + ATAArg) \<times> event list" where
  "ataRead r rs tr =
     (if CmdStatus r \<noteq> ATACmdStatusRead28Bit \<and> CmdStatus r \<noteq> ATACmdStatusRead48Bit
      then (Inl errATAAbort, tr)
      else if FlagWrite r then (Inl errATAAbort, tr)
      else (let offset = ata_offset r;
                tr1 = tr @ [SeekCall offset]
            in case Seek rs tr offset of
                 Some err \<Rightarrow> (Inl (Returned err), tr1)
               | None \<Rightarrow>
                   (let len = nat (int (unat (ATAArg.SectorCount r)) * sectorSize);
                        tr2 = tr1 @ [ReadCall len]
                    in case Read rs tr1 len of
                         (n, bs, Some err) \<Rightarrow> (Inl (Returned err), tr2)
                       | (n, bs, None) \<Rightarrow>
                           if n sdiv sectorSize \<noteq> int (unat (ATAArg.SectorCount r))
                           then (Inl errATAAbort, tr2)
                           else (Inr (ATAArg_zero
                                        \<lparr> CmdStatus := ATACmdStatusReadyStatus,
                                          Data := take len bs @ make_bytes (len - length bs) \<rparr>),
                                 tr2))))"

definition ataWrite ::
  "ATAArg \<Rightarrow> ReadSeeker \<Rightarrow> event list \<Rightarrow> (ata_error + ATAArg) \<times> event list" where
  "ataWrite r rs tr =
     (if CmdStatus r \<noteq> ATACmdStatusWrite28Bit \<and> CmdStatus r \<noteq> ATACmdStatusWrite48Bit
      then (Inl errATAAbort, tr)
      else if \<not> FlagWrite r then (Inl errATAAbort, tr)
      else if int (length (Data r)) sdiv sectorSize \<noteq> int (unat (ATAArg.SectorCount r))
      then (Inl errATAAbort, tr)
      else (case Write rs of
              None \<Rightarrow> (Inl errATAAbort, tr)
            | Some write \<Rightarrow>
                (let offset = ata_offset r;
                     tr1 = tr @ [SeekCall offset]
                 in case Seek rs tr offset of
                      Some err \<Rightarrow> (Inl (Returned err), tr1)
                    | None \<Rightarrow>
                        (let tr2 = tr1 @ [WriteCall (Data r)]
                         in case write tr1 (Data r) of
                              (n, Some err) \<Rightarrow> (Inl (Returned err), tr2)
                            | (n, None) \<Rightarrow>
                                if n sdiv sectorSize \<noteq> int (unat (ATAArg.SectorCount r))
                                then (Inl errATAAbort, tr2)
                                else (Inr (ATAArg_zero \<lparr> CmdStatus := ATACmdStatusReadyStatus \<rparr>),
                                      tr2)))))"

text \<open>
  \<open>ServeATA\<close>.  The response sender \<open>w\<close> is its method \<open>Send\<close>, from the header
  to the byte count and the error.  The result is the pair which \<open>ServeATA\<close> returns,
  with the events it caused.
\<close>

definition ServeATA ::
  "(Header \<Rightarrow> int \<times> error option) \<Rightarrow> Header \<Rightarrow> ReadSeeker
     \<Rightarrow> (int \<times> error option) \<times> event list" where
  "ServeATA w r rs =
     (if Header.Command r \<noteq> CommandIssueATACommand then ((0, Some ErrInvalidATARequest), [])
      else (case Arg r of
              Some (ATA arg) \<Rightarrow>
                if CmdStatus arg = ATACmdStatusCheckPower \<or> CmdStatus arg = ATACmdStatusFlush
                then (let h = Header_zero
                                \<lparr> Arg := Some (ATA (ATAArg_zero
                                     \<lparr> ATAArg.SectorCount := 0xff,
                                       CmdStatus := ATACmdStatusReadyStatus \<rparr>)) \<rparr>
                      in (w h, [SendCall h]))
                else (let (res, tr) =
                            (if CmdStatus arg = ATACmdStatusIdentify then ataIdentify arg rs []
                             else if CmdStatus arg = ATACmdStatusRead28Bit
                                     \<or> CmdStatus arg = ATACmdStatusRead48Bit
                                  then ataRead arg rs []
                             else if CmdStatus arg = ATACmdStatusWrite28Bit
                                     \<or> CmdStatus arg = ATACmdStatusWrite48Bit
                                  then ataWrite arg rs []
                             else (Inl errATAAbort, []))
                      in case res of
                           Inl (Returned err) \<Rightarrow> ((0, Some err), tr)
                         | Inl errATAAbort \<Rightarrow>
                             (let h = Header_zero
                                        \<lparr> Arg := Some (ATA (ATAArg_zero
                                             \<lparr> CmdStatus := ATACmdStatusErrStatus,
                                               ErrFeature := ATAErrAbort \<rparr>)) \<rparr>
                              in (w h, tr @ [SendCall h]))
                         | Inr warg \<Rightarrow>
                             (let h = Header_zero \<lparr> Arg := Some (ATA warg) \<rparr>
                              in (w h, tr @ [SendCall h])))
            | _ \<Rightarrow> ((0, Some ErrInvalidATARequest), [])))"

section \<open>Inputs of the scenarios\<close>

text \<open>The input of the regression test of the fuzzer: \<open>"\x100000\x010000000000\x00\x00"\<close>.\<close>

definition fuzz_crasher :: "byte list" where
  "fuzz_crasher = [0x10, 0x30, 0x30, 0x30, 0x30, 0x01,
                   0x30, 0x30, 0x30, 0x30, 0x30, 0x30, 0x30, 0x30, 0x30, 0x30, 0x00, 0x00]"

section \<open>Words and bytes\<close>

lemma low_nibble_and: "(c::byte) \<le> 0xf \<Longrightarrow> c AND 0xf = c"
proof -
  assume "c \<le> 0xf"
  then have "c < 2 ^ 4" by (simp add: word_le_nat_alt word_less_nat_alt)
  then have "c AND mask 4 = c" by (rule less_mask_eq)
  then show ?thesis by (simp add: mask_eq_exp_minus_1)
qed

lemma low_nibble_bit: "(c::byte) \<le> 0xf \<Longrightarrow> bit c n \<Longrightarrow> n < 4"
proof -
  assume a: "c \<le> 0xf" and b: "bit c n"
  have "c AND mask 4 = c" using low_nibble_and[OF a] by (simp add: mask_eq_exp_minus_1)
  then have "bit (c AND mask 4) n" using b by simp
  then show ?thesis by (simp add: bit_simps)
qed

lemma high_nibble_of_packed:
  "(c::byte) \<le> 0xf \<Longrightarrow> drop_bit 4 (push_bit 4 v OR c) = take_bit 4 v"
  by (rule bit_word_eqI) (auto simp add: bit_simps dest: low_nibble_bit bit_imp_le_length)

lemma high_nibble_of_packed':
  "(c::byte) \<le> 0xf \<Longrightarrow> drop_bit 4 (push_bit 4 v) OR drop_bit 4 c = take_bit 4 (v::byte)"
  using high_nibble_of_packed[of c v] by simp

lemma low_nibble_of_packed:
  assumes "(c::byte) \<le> 0xf"
  shows "(push_bit 4 v OR c) AND 0x0f = c"
proof -
  have "(push_bit 4 v OR c) AND mask 4 = c"
    by (rule bit_word_eqI)
       (use assms in \<open>auto simp add: bit_simps dest: low_nibble_bit bit_imp_le_length\<close>)
  then show ?thesis by (simp add: mask_eq_exp_minus_1)
qed

lemma unat_take_bit_4: "unat (take_bit 4 (v::byte)) = unat v mod 16"
  unfolding unsigned_take_bit_eq by (simp add: take_bit_eq_mod)

lemma take_bit_4_self_iff: "take_bit 4 (v::byte) = v \<longleftrightarrow> v \<le> 0xf"
proof -
  have "take_bit 4 v = v \<longleftrightarrow> unat (take_bit 4 v) = unat v"
    by (simp add: word_unat_eq_iff)
  also have "\<dots> \<longleftrightarrow> unat v mod 16 = unat v" by (simp add: unat_take_bit_4)
  also have "\<dots> \<longleftrightarrow> unat v < 16" by (simp add: mod_eq_self_iff_div_eq_0 div_eq_0_iff)
  also have "\<dots> \<longleftrightarrow> v \<le> 0xf" by (auto simp add: word_le_nat_alt)
  finally show ?thesis .
qed

lemma Uint16_PutUint16: "BigEndian_Uint16 (ucast (drop_bit 8 x)) (ucast x) = x"
  unfolding BigEndian_Uint16_def
  by (rule bit_word_eqI) (auto simp add: bit_simps)

lemma PutUint16_Uint16: "BigEndian_PutUint16 (BigEndian_Uint16 a b) = [a, b]"
proof -
  have "ucast (drop_bit 8 (ucast b OR push_bit 8 (ucast a) :: 16 word)) = a"
    by (rule bit_word_eqI) (auto simp add: bit_simps dest: bit_imp_le_length)
  moreover have "ucast (ucast b OR push_bit 8 (ucast a) :: 16 word) = b"
    by (rule bit_word_eqI) (auto simp add: bit_simps dest: bit_imp_le_length)
  ultimately show ?thesis
    by (simp add: BigEndian_Uint16_def BigEndian_PutUint16_def)
qed

section \<open>The logical block address\<close>

text \<open>The number which six bytes spell, the first byte being the least significant.\<close>

lemma uint_byte_take_bit_8: "take_bit 8 (uint (b::byte)) = uint b"
  by (simp add: take_bit_int_eq_self_iff) (use uint_lt2p[of b] in simp)

lemma LittleEndian_Uint64_concat_bit:
  "LittleEndian_Uint64 r0 r1 r2 r3 r4 r5 0 0 =
   word_of_int (concat_bit 8 (uint r0) (concat_bit 8 (uint r1) (concat_bit 8 (uint r2)
      (concat_bit 8 (uint r3) (concat_bit 8 (uint r4) (uint r5))))))"
  unfolding LittleEndian_Uint64_def
  apply (rule bit_word_eqI)
  apply (simp add: bit_simps)
  apply (auto dest: bit_imp_le_length)
  done

lemma concat_bit_six_bytes:
  "concat_bit 8 (uint r0) (concat_bit 8 (uint r1) (concat_bit 8 (uint r2)
      (concat_bit 8 (uint r3) (concat_bit 8 (uint r4) (uint (r5::byte))))))
   = uint (r0::byte) + 2 ^ 8 * uint (r1::byte) + 2 ^ 16 * uint (r2::byte)
     + 2 ^ 24 * uint (r3::byte) + 2 ^ 32 * uint (r4::byte) + 2 ^ 40 * uint r5"
  by (simp add: concat_bit_eq uint_byte_take_bit_8 push_bit_eq_mult)

lemma six_bytes_bounds:
  "0 \<le> uint (r0::byte) + 2 ^ 8 * uint (r1::byte) + 2 ^ 16 * uint (r2::byte)
     + 2 ^ 24 * uint (r3::byte) + 2 ^ 32 * uint (r4::byte) + 2 ^ 40 * uint (r5::byte)"
  "uint (r0::byte) + 2 ^ 8 * uint (r1::byte) + 2 ^ 16 * uint (r2::byte)
     + 2 ^ 24 * uint (r3::byte) + 2 ^ 32 * uint (r4::byte) + 2 ^ 40 * uint (r5::byte) < 2 ^ 48"
  using uint_lt2p[of r0] uint_lt2p[of r1] uint_lt2p[of r2]
        uint_lt2p[of r3] uint_lt2p[of r4] uint_lt2p[of r5]
  by simp_all

lemma uint_LittleEndian_Uint64:
  "uint (LittleEndian_Uint64 r0 r1 r2 r3 r4 r5 0 0)
   = uint r0 + 2 ^ 8 * uint r1 + 2 ^ 16 * uint r2 + 2 ^ 24 * uint r3
     + 2 ^ 32 * uint r4 + 2 ^ 40 * uint r5"
proof -
  define X where "X = uint r0 + 2 ^ 8 * uint r1 + 2 ^ 16 * uint r2 + 2 ^ 24 * uint r3
     + 2 ^ 32 * uint r4 + 2 ^ 40 * uint r5"
  have b: "0 \<le> X" "X < 2 ^ 48"
    unfolding X_def by (rule six_bytes_bounds)+
  have "LittleEndian_Uint64 r0 r1 r2 r3 r4 r5 0 0 = word_of_int X"
    unfolding X_def by (simp only: LittleEndian_Uint64_concat_bit concat_bit_six_bytes)
  then have "uint (LittleEndian_Uint64 r0 r1 r2 r3 r4 r5 0 0) = X mod 2 ^ 64"
    by (simp only: uint_word_of_int) simp
  also have "\<dots> = X" using b by simp
  finally show ?thesis unfolding X_def .
qed

lemma masks_64: "(0x0000ffffffffffff :: 64 word) = mask 48" "(0x0fffffff :: 64 word) = mask 28"
  by (simp_all add: mask_eq_exp_minus_1)

lemma masks_int: "(0x0000ffffffffffff :: int) = mask 48" "(0x0fffffff :: int) = mask 28"
  by (simp_all add: mask_eq_exp_minus_1)

lemma sint_masked:
  assumes "n < 64"
  shows "sint ((w :: 64 word) AND mask n) = uint w mod 2 ^ n"
proof -
  have u: "uint (w AND mask n) = uint w mod 2 ^ n"
  proof -
    have "uint (w AND mask n) = uint (take_bit n w)" by (simp only: take_bit_eq_mask)
    also have "\<dots> = take_bit n (uint w)" by (rule unsigned_take_bit_eq)
    also have "\<dots> = uint w mod 2 ^ n" by (rule take_bit_eq_mod)
    finally show ?thesis .
  qed
  have "uint w mod 2 ^ n < (2::int) ^ n" by simp
  also have "(2::int) ^ n \<le> 2 ^ 63" using assms by (intro power_increasing) simp_all
  finally have lt: "uint w mod 2 ^ n < 2 ^ 63" .
  have ge: "- (2 ^ 63) \<le> uint w mod 2 ^ n"
    by (rule order_trans[of _ 0]) simp_all
  have "sint (w AND mask n) = signed_take_bit 63 (uint (w AND mask n))"
    by (simp add: sint_uint)
  also have "\<dots> = uint w mod 2 ^ n"
    unfolding u using lt ge by (intro signed_take_bit_int_eq_self) simp_all
  finally show ?thesis .
qed

lemma calculateLBA_mod:
  "calculateLBA (Array6 r0 r1 r2 r3 r4 r5) is48Bit =
     (uint r0 + 2 ^ 8 * uint r1 + 2 ^ 16 * uint r2 + 2 ^ 24 * uint r3
      + 2 ^ 32 * uint r4 + 2 ^ 40 * uint r5) mod (if is48Bit then 2 ^ 48 else 2 ^ 28)"
  by (simp add: calculateLBA_def masks_64 sint_masked uint_LittleEndian_Uint64)

lemma ata_offset_eq: "ata_offset r = calculateLBA (LBA r) (FlagLBA48Extended r) * 512"
proof -
  obtain r0 r1 r2 r3 r4 r5 where L: "LBA r = Array6 r0 r1 r2 r3 r4 r5"
    by (cases "LBA r") auto
  let ?c = "calculateLBA (LBA r) (FlagLBA48Extended r)"
  have a: "0 \<le> ?c" unfolding L calculateLBA_mod by simp
  have "?c < (if FlagLBA48Extended r then 2 ^ 48 else 2 ^ 28)"
    unfolding L calculateLBA_mod by simp
  then have b: "?c < 2 ^ 48" by (simp split: if_splits)
  show ?thesis unfolding ata_offset_def sectorSize_def
    using a b by (intro signed_take_bit_int_eq_self) simp_all
qed

text \<open>
  Claim C5.  For every six-byte array and flag, \<open>calculateLBA\<close> is the little-endian
  value of the six bytes masked with \<open>0x0000ffffffffffff\<close> when the LBA48 flag is
  set and with \<open>0x0fffffff\<close> otherwise; the result is at least 0 and below
  \<open>2^48\<close>, respectively \<open>2^28\<close>; and for six bytes 255 it is 268435455 in
  28-bit mode and 281474976710655 in 48-bit mode.
\<close>

theorem calculateLBA_masks_little_endian:
  "calculateLBA (Array6 r0 r1 r2 r3 r4 r5) is48Bit =
     (uint r0 + 2 ^ 8 * uint r1 + 2 ^ 16 * uint r2 + 2 ^ 24 * uint r3
      + 2 ^ 32 * uint r4 + 2 ^ 40 * uint r5)
       AND (if is48Bit then 0x0000ffffffffffff else 0x0fffffff)
   \<and> 0 \<le> calculateLBA (Array6 r0 r1 r2 r3 r4 r5) is48Bit
   \<and> calculateLBA (Array6 r0 r1 r2 r3 r4 r5) is48Bit < (if is48Bit then 2 ^ 48 else 2 ^ 28)
   \<and> calculateLBA (Array6 255 255 255 255 255 255) False = 268435455
   \<and> calculateLBA (Array6 255 255 255 255 255 255) True = 281474976710655"
proof -
  have 1: "calculateLBA (Array6 r0 r1 r2 r3 r4 r5) is48Bit =
     (uint r0 + 2 ^ 8 * uint r1 + 2 ^ 16 * uint r2 + 2 ^ 24 * uint r3
      + 2 ^ 32 * uint r4 + 2 ^ 40 * uint r5)
       AND (if is48Bit then 0x0000ffffffffffff else 0x0fffffff)"
    unfolding calculateLBA_mod masks_int
    by (simp add: take_bit_eq_mod flip: take_bit_eq_mask)
  have 2: "0 \<le> calculateLBA (Array6 r0 r1 r2 r3 r4 r5) is48Bit"
    unfolding calculateLBA_mod by simp
  have 3: "calculateLBA (Array6 r0 r1 r2 r3 r4 r5) is48Bit
             < (if is48Bit then 2 ^ 48 else 2 ^ 28)"
    unfolding calculateLBA_mod by simp
  have 4: "calculateLBA (Array6 255 255 255 255 255 255) False = 268435455"
    unfolding calculateLBA_mod by simp
  have 5: "calculateLBA (Array6 255 255 255 255 255 255) True = 281474976710655"
    unfolding calculateLBA_mod by simp
  show ?thesis using 1 2 3 4 5 by (simp only:)
qed

section \<open>The configuration argument\<close>

text \<open>
  Claim C8, as the code has it.  On an input of at least eight bytes whose string length
  (bytes 6 and 7, big-endian) exceeds 1024, \<open>ConfigArg.UnmarshalBinary\<close> returns
  \<open>ErrorBadArgumentParameter\<close> when at least that many bytes follow the prefix, and
  \<open>io.ErrUnexpectedEOF\<close> when fewer do: the length of the input is checked first.
\<close>

theorem ConfigArg_unmarshal_long_string:
  "8 \<le> length b \<Longrightarrow> 1024 < BigEndian_Uint16 (b ! 6) (b ! 7) \<Longrightarrow>
   ConfigArg_UnmarshalBinary b =
     (if length b - 8 < unat (BigEndian_Uint16 (b ! 6) (b ! 7))
      then Err ErrUnexpectedEOF else Err ErrorBadArgumentParameter)"
  by (simp add: ConfigArg_UnmarshalBinary_def configArgLen_def Let_def)

text \<open>
  The input of the test "config string length too long": the string length is 1025 and
  1025 bytes follow.
\<close>

theorem ConfigArg_unmarshal_long_string_witness:
  "ConfigArg_UnmarshalBinary ([0, 0, 0, 0, 0, 0x10, 4, 1] @ replicate 1025 0)
     = Err ErrorBadArgumentParameter"
  using ConfigArg_unmarshal_long_string [of "[0, 0, 0, 0, 0, 0x10, 4, 1] @ replicate 1025 0"]
  by (simp add: BigEndian_Uint16_def nth_append)

text \<open>
  Claim C8 as stated fails: the eight bytes below carry the string length 1025 and
  nothing behind it, and the result is \<open>io.ErrUnexpectedEOF\<close>.
\<close>

theorem ConfigArg_unmarshal_long_string_short_input:
  "BigEndian_Uint16 ([0, 0, 0, 0, 0, 0, 4, 1] ! 6) ([0, 0, 0, 0, 0, 0, 4, 1] ! 7) = 1025
   \<and> ConfigArg_UnmarshalBinary [0, 0, 0, 0, 0, 0, 4, 1] = Err ErrUnexpectedEOF"
  by (simp add: ConfigArg_UnmarshalBinary_def configArgLen_def BigEndian_Uint16_def)

text \<open>
  Claim C10.  For every ConfigArg with \<open>Command \<le> 0xf\<close> and
  \<open>StringLength = len(String) \<le> 1024\<close>, \<open>MarshalBinary\<close> succeeds and
  \<open>UnmarshalBinary\<close> of its bytes gives the same ConfigArg but for \<open>Version\<close>,
  which is \<open>Version mod 16\<close>: only the low four bits are stored.  The version comes
  back unchanged exactly when it is at most 15.
\<close>

theorem ConfigArg_roundtrip_version:
  assumes "ConfigArg.Command c \<le> 0xf"
    and "unat (StringLength c) = length (String c)"
    and "StringLength c \<le> 1024"
  shows "\<exists>b c'. ConfigArg_MarshalBinary c = Ok b \<and> ConfigArg_UnmarshalBinary b = Ok c'
     \<and> c' = c\<lparr>ConfigArg.Version := take_bit 4 (ConfigArg.Version c)\<rparr>
     \<and> unat (ConfigArg.Version c') = unat (ConfigArg.Version c) mod 16
     \<and> (ConfigArg.Version c' = ConfigArg.Version c \<longleftrightarrow> ConfigArg.Version c \<le> 0xf)"
  using assms
  by (cases c)
     (simp add: ConfigArg_MarshalBinary_def ConfigArg_UnmarshalBinary_def configArgLen_def
        BigEndian_PutUint16_def Uint16_PutUint16 high_nibble_of_packed' low_nibble_of_packed
        take_bit_4_self_iff unat_take_bit_4 Let_def not_less)

text \<open>A ConfigArg of version 0x21 comes back with version 1.\<close>

theorem ConfigArg_roundtrip_version_witness:
  "\<exists>b c'. ConfigArg_MarshalBinary
             \<lparr> BufferCount = 10, FirmwareVersion = 1, ConfigArg.SectorCount = 2,
               ConfigArg.Version = 0x21, ConfigArg.Command = 2, StringLength = 3,
               String = [0x66, 0x6f, 0x6f] \<rparr> = Ok b
     \<and> ConfigArg_UnmarshalBinary b = Ok c'
     \<and> ConfigArg.Version c' = 1"
  using ConfigArg_roundtrip_version
          [of "\<lparr> BufferCount = 10, FirmwareVersion = 1, ConfigArg.SectorCount = 2,
                 ConfigArg.Version = 0x21, ConfigArg.Command = 2, StringLength = 3,
                 String = [0x66, 0x6f, 0x6f] \<rparr>"]
  by (auto simp add: take_bit_eq_mod)

section \<open>The regression input of the fuzzer\<close>

text \<open>
  Claim C9.  \<open>Header.UnmarshalBinary\<close> accepts the 18 bytes of \<open>fuzz_crasher\<close>; the
  argument is a ConfigArg whose version is 3, not 1; and \<open>Header.MarshalBinary\<close> of
  the decoded header succeeds with the same 18 bytes.
\<close>

theorem fuzz_crasher_reencodes:
  "Header_UnmarshalBinary fuzz_crasher =
     Ok \<lparr> Header.Version = 1, FlagResponse = False, FlagError = False,
          Header.Error = 0x30, Major = 0x3030, Minor = 0x30, Header.Command = 1,
          Tag = Array4 0x30 0x30 0x30 0x30,
          Arg = Some (Config \<lparr> BufferCount = 0x3030, FirmwareVersion = 0x3030,
                               ConfigArg.SectorCount = 0x30, ConfigArg.Version = 3,
                               ConfigArg.Command = 0, StringLength = 0, String = [] \<rparr>) \<rparr>
   \<and> (3 :: byte) \<noteq> 1
   \<and> length fuzz_crasher = 18
   \<and> Header_MarshalBinary
        \<lparr> Header.Version = 1, FlagResponse = False, FlagError = False,
          Header.Error = 0x30, Major = 0x3030, Minor = 0x30, Header.Command = 1,
          Tag = Array4 0x30 0x30 0x30 0x30,
          Arg = Some (Config \<lparr> BufferCount = 0x3030, FirmwareVersion = 0x3030,
                               ConfigArg.SectorCount = 0x30, ConfigArg.Version = 3,
                               ConfigArg.Command = 0, StringLength = 0, String = [] \<rparr>) \<rparr>
       = Ok fuzz_crasher"
  by (simp add: Header_UnmarshalBinary_def Header_MarshalBinary_def fuzz_crasher_def
      headerLen_def Version_const_def CommandIssueATACommand_def
      CommandQueryConfigInformation_def ConfigArg_UnmarshalBinary_def
      ConfigArg_MarshalBinary_def configArgLen_def BigEndian_Uint16_def
      BigEndian_PutUint16_def Let_def drop_bit_eq_div)

end
